theory Spec2Isabelle
  imports Complex_Main "HOL-Library.Sublist" "HOL-Library.Word"
begin

section \<open>Python values used by the audio processor\<close>

text \<open>
  A Python float is a finite value, an infinity or NaN. Finite values are reals here:
  rounding to 64 bits is left out, the order and the special values are kept, since the
  classifier only compares feature values with literals. Every comparison with NaN is
  False, as in IEEE 754.
\<close>

datatype pyfloat = Finite real | PosInf | NegInf | NaN

fun float_lt :: "pyfloat \<Rightarrow> pyfloat \<Rightarrow> bool" where
  "float_lt (Finite a) (Finite b) = (a < b)"
| "float_lt (Finite a) PosInf = True"
| "float_lt NegInf (Finite b) = True"
| "float_lt NegInf PosInf = True"
| "float_lt _ _ = False"

definition float_gt :: "pyfloat \<Rightarrow> pyfloat \<Rightarrow> bool" where
  "float_gt a b = float_lt b a"

fun float_le :: "pyfloat \<Rightarrow> pyfloat \<Rightarrow> bool" where
  "float_le NaN _ = False"
| "float_le _ NaN = False"
| "float_le a b = (a = b \<or> float_lt a b)"

fun float_add :: "pyfloat \<Rightarrow> pyfloat \<Rightarrow> pyfloat" where
  "float_add (Finite a) (Finite b) = Finite (a + b)"
| "float_add NaN _ = NaN"
| "float_add _ NaN = NaN"
| "float_add PosInf NegInf = NaN"
| "float_add NegInf PosInf = NaN"
| "float_add PosInf _ = PosInf"
| "float_add _ PosInf = PosInf"
| "float_add NegInf _ = NegInf"
| "float_add _ NegInf = NegInf"

text \<open>\<open>np.sum\<close> of a one-dimensional array; the empty sum is 0.0.\<close>

definition np_sum :: "pyfloat list \<Rightarrow> pyfloat" where
  "np_sum xs = foldl float_add (Finite 0) xs"

text \<open>
  The exceptions that can reach the handlers of \<open>process_voice\<close>: librosa's
  \<open>ParameterError\<close>, which has a handler of its own, and the other subclasses of
  \<open>Exception\<close>. Each carries the text that \<open>str(e)\<close> returns.
\<close>

datatype pyexn =
    ParameterError string
  | IndexError string
  | ValueError string
  | OtherException string

fun exn_str :: "pyexn \<Rightarrow> string" where
  "exn_str (ParameterError m) = m"
| "exn_str (IndexError m) = m"
| "exn_str (ValueError m) = m"
| "exn_str (OtherException m) = m"

text \<open>\<open>str.lower\<close> on ASCII text, \<open>kw in s\<close> and \<open>sep.join(xs)\<close>.\<close>

definition lower_char :: "char \<Rightarrow> char" where
  "lower_char c =
     (case map_of (zip ''ABCDEFGHIJKLMNOPQRSTUVWXYZ'' ''abcdefghijklmnopqrstuvwxyz'') c of
        None \<Rightarrow> c
      | Some d \<Rightarrow> d)"

definition lower :: "string \<Rightarrow> string" where
  "lower s = map lower_char s"

fun str_in :: "string \<Rightarrow> string \<Rightarrow> bool" where
  "str_in kw [] = (kw = [])"
| "str_in kw (c # cs) = (prefix kw (c # cs) \<or> str_in kw cs)"

fun join :: "string \<Rightarrow> string list \<Rightarrow> string" where
  "join sep [] = []"
| "join sep [x] = x"
| "join sep (x # y # ys) = x @ sep @ join sep (y # ys)"

text \<open>
  \<open>round(x, ndigits)\<close> on a float: the nearest multiple of \<open>10 ^ -ndigits\<close>, an exact tie
  going to the even neighbour.
\<close>

definition round_half_even :: "real \<Rightarrow> int" where
  "round_half_even x =
     (let n = \<lfloor>x\<rfloor>; d = x - of_int n
      in if d < 1 / 2 then n else if 1 / 2 < d then n + 1 else if even n then n else n + 1)"

definition py_round :: "real \<Rightarrow> nat \<Rightarrow> real" where
  "py_round x ndigits = of_int (round_half_even (x * 10 ^ ndigits)) / 10 ^ ndigits"

section \<open>The feature vector\<close>

text \<open>
  The dictionary built by \<open>extract_audio_features\<close>, one field per key. The three MFCC
  entries are arrays (one value per coefficient), the others are scalars.
\<close>

record features =
  mfcc_mean :: "pyfloat list"
  mfcc_std :: "pyfloat list"
  mfcc_var :: "pyfloat list"
  zcr_mean :: pyfloat
  zcr_std :: pyfloat
  spectral_centroid_mean :: pyfloat
  spectral_centroid_std :: pyfloat
  spectral_rolloff_mean :: pyfloat
  spectral_rolloff_std :: pyfloat
  spectral_flatness_mean :: pyfloat
  spectral_flatness_std :: pyfloat
  chroma_mean :: pyfloat
  chroma_std :: pyfloat
  rms_mean :: pyfloat
  rms_std :: pyfloat
  pitch_mean :: pyfloat
  pitch_std :: pyfloat
  pitch_range :: pyfloat
  spectral_bandwidth_mean :: pyfloat
  spectral_bandwidth_std :: pyfloat
  spectral_contrast_mean :: pyfloat
  spectral_contrast_std :: pyfloat

section \<open>classify_voice\<close>

text \<open>
  The three local variables that the rules of \<open>classify_voice\<close> update: the two scores
  and the list of reasons. Each rule of the source is one function from the state before
  the rule to the state after it.
\<close>

record scoring =
  ai_score :: int
  human_score :: int
  reasons :: "string list"

definition initial_scoring :: scoring where
  "initial_scoring = \<lparr>ai_score = 0, human_score = 0, reasons = []\<rparr>"

definition rule1_spectral_flatness :: "features \<Rightarrow> scoring \<Rightarrow> scoring" where
  "rule1_spectral_flatness f s =
     (if float_lt (spectral_flatness_std f) (Finite 0.06) then
        s\<lparr>ai_score := ai_score s + 4,
          reasons := reasons s @ [''Synthetic spectral structure detected'']\<rparr>
      else if float_lt (spectral_flatness_std f) (Finite 0.15) then
        s\<lparr>ai_score := ai_score s + 2, reasons := reasons s @ [''Low spectral variance'']\<rparr>
      else
        s\<lparr>human_score := human_score s + 1,
          reasons := reasons s @ [''Natural spectral variation'']\<rparr>)"

definition rule2_pitch_consistency :: "features \<Rightarrow> scoring \<Rightarrow> scoring" where
  "rule2_pitch_consistency f s =
     (if float_lt (pitch_std f) (Finite 50) then
        s\<lparr>ai_score := ai_score s + 3,
          reasons := reasons s @ [''Unnatural pitch consistency'']\<rparr>
      else if float_lt (pitch_std f) (Finite 200) then
        s\<lparr>ai_score := ai_score s + 1\<rparr>
      else if float_gt (pitch_range f) (Finite 3000) then
        (let s1 = s\<lparr>human_score := human_score s + 1,
                      reasons := reasons s @ [''Wide pitch range'']\<rparr>
         in if float_gt (zcr_std f) (Finite 0.1)
            then s1\<lparr>human_score := human_score s1 + 1\<rparr> else s1)
      else s)"

definition rule3_zcr_variation :: "features \<Rightarrow> scoring \<Rightarrow> scoring" where
  "rule3_zcr_variation f s =
     (if float_lt (zcr_std f) (Finite 0.03) then
        s\<lparr>ai_score := ai_score s + 2, reasons := reasons s @ [''Uniform rhythm patterns'']\<rparr>
      else s\<lparr>human_score := human_score s + 1\<rparr>)"

definition rule4_energy_variation :: "features \<Rightarrow> scoring \<Rightarrow> scoring" where
  "rule4_energy_variation f s =
     (if float_lt (rms_std f) (Finite 0.02) then
        s\<lparr>ai_score := ai_score s + 1, reasons := reasons s @ [''Consistent energy levels'']\<rparr>
      else s\<lparr>human_score := human_score s + 1\<rparr>)"

definition rule5_mfcc_variance :: "features \<Rightarrow> scoring \<Rightarrow> scoring" where
  "rule5_mfcc_variance f s =
     (let mfcc_var_sum = np_sum (mfcc_var f)
      in if float_lt mfcc_var_sum (Finite 5) then
           s\<lparr>ai_score := ai_score s + 2, reasons := reasons s @ [''Low spectral diversity'']\<rparr>
         else s\<lparr>human_score := human_score s + 2\<rparr>)"

definition rule6_spectral_bandwidth :: "features \<Rightarrow> scoring \<Rightarrow> scoring" where
  "rule6_spectral_bandwidth f s =
     (if float_lt (spectral_bandwidth_std f) (Finite 300)
      then s\<lparr>ai_score := ai_score s + 1\<rparr> else s)"

text \<open>The override placed between rule 6 and rule 7: \<open>reasons.insert(0, ...)\<close>.\<close>

definition override_spectral_flatness :: "features \<Rightarrow> scoring \<Rightarrow> scoring" where
  "override_spectral_flatness f s =
     (if float_lt (spectral_flatness_std f) (Finite 0.06) then
        s\<lparr>ai_score := ai_score s + 6,
          reasons := ''Strong synthetic spectral signature'' # reasons s\<rparr>
      else s)"

definition rule7_spectral_contrast :: "features \<Rightarrow> scoring \<Rightarrow> scoring" where
  "rule7_spectral_contrast f s =
     (if float_lt (spectral_contrast_std f) (Finite 5) then
        s\<lparr>ai_score := ai_score s + 1, reasons := reasons s @ [''Low dynamic range'']\<rparr>
      else
        s\<lparr>human_score := human_score s + 1,
          reasons := reasons s @ [''Dynamic spectral contrast'']\<rparr>)"

text \<open>The state when the source reaches "Calculate confidence score".\<close>

definition apply_rules :: "features \<Rightarrow> scoring" where
  "apply_rules f =
     rule7_spectral_contrast f
      (override_spectral_flatness f
        (rule6_spectral_bandwidth f
          (rule5_mfcc_variance f
            (rule4_energy_variation f
              (rule3_zcr_variation f
                (rule2_pitch_consistency f
                  (rule1_spectral_flatness f initial_scoring)))))))"

text \<open>
  The confidence before rounding: the share of the larger score, or 0.5 when the total
  is not positive, clamped by \<open>max(0.55, min(0.95, confidence))\<close>.
\<close>

definition raw_confidence :: "int \<Rightarrow> int \<Rightarrow> real" where
  "raw_confidence ai hu =
     (let total_score = ai + hu
      in if total_score > 0 then real_of_int (max ai hu) / real_of_int total_score
         else 0.5)"

definition clamp_confidence :: "real \<Rightarrow> real" where
  "clamp_confidence confidence = max 0.55 (min 0.95 confidence)"

definition ai_keywords :: "string list" where
  "ai_keywords = [''unnatural'', ''low'', ''uniform'', ''consistent'', ''limited'']"

definition human_keywords :: "string list" where
  "human_keywords = [''natural'', ''variation'', ''rich'', ''dynamic'']"

text \<open>\<open>any(kw in r.lower() for kw in kws)\<close>\<close>

definition any_keyword :: "string list \<Rightarrow> string \<Rightarrow> bool" where
  "any_keyword kws r = list_ex (\<lambda>kw. str_in kw (lower r)) kws"

text \<open>
  \<open>"; ".join(sel[:3]) if sel else reasons[0]\<close>, where \<open>sel\<close> holds the reasons that
  match a keyword. \<open>reasons[0]\<close> raises IndexError on an empty list.
\<close>

definition select_explanation :: "string list \<Rightarrow> string list \<Rightarrow> pyexn + string" where
  "select_explanation kws rs =
     (let sel = filter (any_keyword kws) rs
      in if sel \<noteq> [] then Inr (join ''; '' (take 3 sel))
         else (case rs of
                 [] \<Rightarrow> Inl (IndexError ''list index out of range'')
               | r # _ \<Rightarrow> Inr r))"

record classification_result =
  classification :: string
  confidenceScore :: real
  explanation :: string

definition classify_voice :: "features \<Rightarrow> pyexn + classification_result" where
  "classify_voice f =
     (let s = apply_rules f;
          confidence = clamp_confidence (raw_confidence (ai_score s) (human_score s))
      in if ai_score s > human_score s then
           (case select_explanation ai_keywords (reasons s) of
              Inl e \<Rightarrow> Inl e
            | Inr ex \<Rightarrow> Inr \<lparr>classification = ''AI_GENERATED'',
                             confidenceScore = py_round confidence 2,
                             explanation = ex\<rparr>)
         else
           (case select_explanation human_keywords (reasons s) of
              Inl e \<Rightarrow> Inl e
            | Inr ex \<Rightarrow> Inr \<lparr>classification = ''HUMAN'',
                             confidenceScore = py_round confidence 2,
                             explanation = ex\<rparr>))"

section \<open>extract_audio_features\<close>

text \<open>
  The decoded signal is a sequence of samples, and a librosa feature is a matrix given
  as the list of its rows (one row per coefficient or band, one entry per frame). The
  result of \<open>librosa.piptrack\<close> is a pair of matrices of one shape, indexed by frequency
  bin and frame; it is kept frame by frame, each frame listing for every bin the pair
  \<open>(pitches[bin, t], magnitudes[bin, t])\<close>, which is all that the loop over \<open>t\<close> reads.
\<close>

type_synonym signal = "real list"
type_synonym matrix = "real list list"
type_synonym pitch_track = "(real \<times> real) list list"

text \<open>
  \<open>np.mean\<close>, \<open>np.var\<close> and \<open>np.std\<close> of a sequence of finite values (the population
  statistics, \<open>ddof = 0\<close>), in exact arithmetic. On an empty array numpy returns NaN.
\<close>

definition np_mean :: "real list \<Rightarrow> pyfloat" where
  "np_mean xs = (if xs = [] then NaN else Finite (sum_list xs / real (length xs)))"

definition np_var :: "real list \<Rightarrow> pyfloat" where
  "np_var xs =
     (if xs = [] then NaN
      else (let m = sum_list xs / real (length xs)
            in Finite (sum_list (map (\<lambda>x. (x - m)\<^sup>2) xs) / real (length xs))))"

definition np_std :: "real list \<Rightarrow> pyfloat" where
  "np_std xs =
     (if xs = [] then NaN
      else (let m = sum_list xs / real (length xs)
            in Finite (sqrt (sum_list (map (\<lambda>x. (x - m)\<^sup>2) xs) / real (length xs)))))"

text \<open>\<open>a.argmax()\<close>: the first index of the largest entry; ValueError on an empty array.\<close>

fun argmax_from :: "real \<Rightarrow> nat \<Rightarrow> nat \<Rightarrow> real list \<Rightarrow> nat" where
  "argmax_from best besti i [] = besti"
| "argmax_from best besti i (x # xs) =
     (if best < x then argmax_from x i (Suc i) xs else argmax_from best besti (Suc i) xs)"

fun argmax :: "real list \<Rightarrow> pyexn + nat" where
  "argmax [] = Inl (ValueError ''attempt to get argmax of an empty sequence'')"
| "argmax (x # xs) = Inr (argmax_from x 0 1 xs)"

text \<open>The body of the loop over the frames: the pitch of the bin of largest magnitude.\<close>

definition frame_pitch :: "(real \<times> real) list \<Rightarrow> pyexn + real" where
  "frame_pitch fr =
     (case argmax (map snd fr) of
        Inl e \<Rightarrow> Inl e
      | Inr index \<Rightarrow> Inr (fst (fr ! index)))"

fun collect_pitch_values :: "pitch_track \<Rightarrow> real list \<Rightarrow> pyexn + real list" where
  "collect_pitch_values [] pitch_values = Inr pitch_values"
| "collect_pitch_values (fr # frs) pitch_values =
     (case frame_pitch fr of
        Inl e \<Rightarrow> Inl e
      | Inr pitch \<Rightarrow>
          collect_pitch_values frs
            (if pitch > 0 then pitch_values @ [pitch] else pitch_values))"

text \<open>
  The three pitch entries, in the order mean, standard deviation, range:
  \<open>if pitch_values: ... else: 0.0, 0.0, 0.0\<close>.
\<close>

definition pitch_statistics :: "real list \<Rightarrow> pyfloat \<times> pyfloat \<times> pyfloat" where
  "pitch_statistics pitch_values =
     (case pitch_values of
        [] \<Rightarrow> (Finite 0, Finite 0, Finite 0)
      | p # ps \<Rightarrow>
          (np_mean pitch_values, np_std pitch_values,
           Finite (foldl max p ps - foldl min p ps)))"

text \<open>
  The calls into librosa are parameters of the model: each takes the decoded signal
  (\<open>load\<close> takes the bytes) and returns its value or raises. The sample rate is the
  constant 22050 and is left out.
\<close>

record librosa =
  load :: "8 word list \<Rightarrow> pyexn + signal"
  feature_mfcc :: "signal \<Rightarrow> pyexn + matrix"
  feature_zero_crossing_rate :: "signal \<Rightarrow> pyexn + matrix"
  feature_spectral_centroid :: "signal \<Rightarrow> pyexn + matrix"
  feature_spectral_rolloff :: "signal \<Rightarrow> pyexn + matrix"
  feature_spectral_flatness :: "signal \<Rightarrow> pyexn + matrix"
  feature_chroma_stft :: "signal \<Rightarrow> pyexn + matrix"
  feature_rms :: "signal \<Rightarrow> pyexn + matrix"
  piptrack :: "signal \<Rightarrow> pyexn + pitch_track"
  feature_spectral_bandwidth :: "signal \<Rightarrow> pyexn + matrix"
  feature_spectral_contrast :: "signal \<Rightarrow> pyexn + matrix"

text \<open>Sequencing of two steps, the first of which may raise.\<close>

definition try_bind :: "pyexn + 'a \<Rightarrow> ('a \<Rightarrow> pyexn + 'b) \<Rightarrow> pyexn + 'b" where
  "try_bind r k = (case r of Inl e \<Rightarrow> Inl e | Inr v \<Rightarrow> k v)"

definition extract_audio_features :: "librosa \<Rightarrow> 8 word list \<Rightarrow> pyexn + features" where
  "extract_audio_features lib audio_bytes =
     try_bind (load lib audio_bytes) (\<lambda>y.
     try_bind (feature_mfcc lib y) (\<lambda>mfccs.
     try_bind (feature_zero_crossing_rate lib y) (\<lambda>zcr.
     try_bind (feature_spectral_centroid lib y) (\<lambda>spectral_centroid.
     try_bind (feature_spectral_rolloff lib y) (\<lambda>spectral_rolloff.
     try_bind (feature_spectral_flatness lib y) (\<lambda>spectral_flatness.
     try_bind (feature_chroma_stft lib y) (\<lambda>chroma.
     try_bind (feature_rms lib y) (\<lambda>rms.
     try_bind (piptrack lib y) (\<lambda>track.
     try_bind (collect_pitch_values track []) (\<lambda>pitch_values.
     try_bind (feature_spectral_bandwidth lib y) (\<lambda>spectral_bandwidth.
     try_bind (feature_spectral_contrast lib y) (\<lambda>spectral_contrast.
       Inr \<lparr>mfcc_mean = map np_mean mfccs,
            mfcc_std = map np_std mfccs,
            mfcc_var = map np_var mfccs,
            zcr_mean = np_mean (concat zcr),
            zcr_std = np_std (concat zcr),
            spectral_centroid_mean = np_mean (concat spectral_centroid),
            spectral_centroid_std = np_std (concat spectral_centroid),
            spectral_rolloff_mean = np_mean (concat spectral_rolloff),
            spectral_rolloff_std = np_std (concat spectral_rolloff),
            spectral_flatness_mean = np_mean (concat spectral_flatness),
            spectral_flatness_std = np_std (concat spectral_flatness),
            chroma_mean = np_mean (concat chroma),
            chroma_std = np_std (concat chroma),
            rms_mean = np_mean (concat rms),
            rms_std = np_std (concat rms),
            pitch_mean = fst (pitch_statistics pitch_values),
            pitch_std = fst (snd (pitch_statistics pitch_values)),
            pitch_range = snd (snd (pitch_statistics pitch_values)),
            spectral_bandwidth_mean = np_mean (concat spectral_bandwidth),
            spectral_bandwidth_std = np_std (concat spectral_bandwidth),
            spectral_contrast_mean = np_mean (concat spectral_contrast),
            spectral_contrast_std = np_std (concat spectral_contrast)\<rparr>))))))))))))"

section \<open>process_voice\<close>

text \<open>
  The returned dictionary: on success the keys \<open>status\<close>, \<open>language\<close> and the three keys
  of the classification, on failure the keys \<open>status\<close> and \<open>message\<close>.
\<close>

datatype response =
    Success string classification_result
  | Error string

fun status :: "response \<Rightarrow> string" where
  "status (Success l r) = ''success''"
| "status (Error m) = ''error''"

fun response_language :: "response \<Rightarrow> string option" where
  "response_language (Success l r) = Some l"
| "response_language (Error m) = None"

fun response_result :: "response \<Rightarrow> classification_result option" where
  "response_result (Success l r) = Some r"
| "response_result (Error m) = None"

fun response_message :: "response \<Rightarrow> string option" where
  "response_message (Success l r) = None"
| "response_message (Error m) = Some m"

definition process_voice :: "librosa \<Rightarrow> 8 word list \<Rightarrow> string \<Rightarrow> response" where
  "process_voice lib audio_bytes language =
     (case try_bind (extract_audio_features lib audio_bytes) classify_voice of
        Inr result \<Rightarrow> Success language result
      | Inl (ParameterError m) \<Rightarrow> Error (''Invalid audio format: '' @ m)
      | Inl e \<Rightarrow> Error (''Processing failed: '' @ exn_str e))"

section \<open>Notions used to state the properties\<close>

text \<open>Every reason string that a rule of \<open>classify_voice\<close> can add to the list.\<close>

definition rule_reasons :: "string list" where
  "rule_reasons =
     [''Synthetic spectral structure detected'', ''Low spectral variance'',
      ''Natural spectral variation'', ''Unnatural pitch consistency'', ''Wide pitch range'',
      ''Uniform rhythm patterns'', ''Consistent energy levels'', ''Low spectral diversity'',
      ''Strong synthetic spectral signature'', ''Low dynamic range'',
      ''Dynamic spectral contrast'']"

text \<open>
  Relations between the scoring state before a rule and after it: neither score
  decreases; exactly one of the two scores increases and the other is unchanged; the
  list of reasons is extended at its end by strings of the rule table.
\<close>

definition scores_grow :: "scoring \<Rightarrow> scoring \<Rightarrow> bool" where
  "scores_grow s t = (ai_score s \<le> ai_score t \<and> human_score s \<le> human_score t)"

definition one_score_incremented :: "scoring \<Rightarrow> scoring \<Rightarrow> bool" where
  "one_score_incremented s t =
     ((ai_score s < ai_score t \<and> human_score t = human_score s) \<or>
      (human_score s < human_score t \<and> ai_score t = ai_score s))"

definition reasons_extended :: "scoring \<Rightarrow> scoring \<Rightarrow> bool" where
  "reasons_extended s t =
     (\<exists>ys. reasons t = reasons s @ ys \<and> set ys \<subseteq> set rule_reasons)"

text \<open>
  Feature vectors for concrete evaluation, given by the eight values that
  \<open>classify_voice\<close> reads: the deviations of spectral flatness, of the pitch, the pitch
  range, the deviations of zero-crossing rate and RMS energy, the sum of the MFCC
  variances, and the deviations of spectral bandwidth and contrast. The other entries
  are 0.0 and the sum of the MFCC variances is carried by the first coefficient.
\<close>

definition features_with ::
  "real \<Rightarrow> real \<Rightarrow> real \<Rightarrow> real \<Rightarrow> real \<Rightarrow> real \<Rightarrow> real \<Rightarrow> real \<Rightarrow> features" where
  "features_with flatness_sd pitch_sd pitch_rng zcr_sd rms_sd mfcc_variance bandwidth_sd contrast_sd =
     \<lparr>mfcc_mean = replicate 13 (Finite 0), mfcc_std = replicate 13 (Finite 0),
      mfcc_var = Finite mfcc_variance # replicate 12 (Finite 0),
      zcr_mean = Finite 0, zcr_std = Finite zcr_sd,
      spectral_centroid_mean = Finite 0, spectral_centroid_std = Finite 0,
      spectral_rolloff_mean = Finite 0, spectral_rolloff_std = Finite 0,
      spectral_flatness_mean = Finite 0, spectral_flatness_std = Finite flatness_sd,
      chroma_mean = Finite 0, chroma_std = Finite 0,
      rms_mean = Finite 0, rms_std = Finite rms_sd,
      pitch_mean = Finite 0, pitch_std = Finite pitch_sd, pitch_range = Finite pitch_rng,
      spectral_bandwidth_mean = Finite 0, spectral_bandwidth_std = Finite bandwidth_sd,
      spectral_contrast_mean = Finite 0, spectral_contrast_std = Finite contrast_sd\<rparr>"

definition override_example :: features where
  "override_example = features_with 0.05 500 4000 0.2 0.5 50 1000 50"

definition tie_example :: features where
  "tie_example = features_with 0.1 500 0 0.01 0.1 10 1000 10"

definition flat_example :: features where
  "flat_example = features_with 0.01 10 100 0.01 0.01 1 100 1"

definition relabelled_example :: features where
  "relabelled_example = features_with 0.2 10 100 0.05 0.1 10 1000 10"

text \<open>
  A call into librosa returns when it does not raise. \<open>librosa_returns\<close> says that, for
  the given bytes, \<open>load\<close> returns the signal \<open>y\<close>, \<open>piptrack\<close> returns \<open>track\<close> on it and the
  other feature computations return too.
\<close>

definition returns :: "pyexn + 'a \<Rightarrow> bool" where
  "returns r = (case r of Inl e \<Rightarrow> False | Inr v \<Rightarrow> True)"

definition librosa_returns :: "librosa \<Rightarrow> 8 word list \<Rightarrow> signal \<Rightarrow> pitch_track \<Rightarrow> bool" where
  "librosa_returns lib audio_bytes y track =
     (load lib audio_bytes = Inr y
      \<and> returns (feature_mfcc lib y)
      \<and> returns (feature_zero_crossing_rate lib y)
      \<and> returns (feature_spectral_centroid lib y)
      \<and> returns (feature_spectral_rolloff lib y)
      \<and> returns (feature_spectral_flatness lib y)
      \<and> returns (feature_chroma_stft lib y)
      \<and> returns (feature_rms lib y)
      \<and> piptrack lib y = Inr track
      \<and> returns (feature_spectral_bandwidth lib y)
      \<and> returns (feature_spectral_contrast lib y))"

fun is_parameter_error :: "pyexn \<Rightarrow> bool" where
  "is_parameter_error (ParameterError m) = True"
| "is_parameter_error e = False"

text \<open>
  Libraries for concrete evaluation. \<open>constant_library\<close> decodes every input to the given
  outcome, tracks the given pitches and answers every other feature with the two-frame
  matrix whose rows are 1, 3 (thirteen rows for the MFCCs). In \<open>undecodable_library\<close> the
  decoder fails with an exception that is not a \<open>ParameterError\<close>, and in
  \<open>invalid_buffer_library\<close> decoding succeeds and the MFCC computation rejects the
  decoded buffer with a \<open>ParameterError\<close>.
\<close>

definition constant_library :: "(pyexn + signal) \<Rightarrow> pitch_track \<Rightarrow> librosa" where
  "constant_library decoded track =
     \<lparr>load = (\<lambda>audio_bytes. decoded),
      feature_mfcc = (\<lambda>y. Inr (replicate 13 [1, 3])),
      feature_zero_crossing_rate = (\<lambda>y. Inr [[1, 3]]),
      feature_spectral_centroid = (\<lambda>y. Inr [[1, 3]]),
      feature_spectral_rolloff = (\<lambda>y. Inr [[1, 3]]),
      feature_spectral_flatness = (\<lambda>y. Inr [[1, 3]]),
      feature_chroma_stft = (\<lambda>y. Inr [[1, 3]]),
      feature_rms = (\<lambda>y. Inr [[1, 3]]),
      piptrack = (\<lambda>y. Inr track),
      feature_spectral_bandwidth = (\<lambda>y. Inr [[1, 3]]),
      feature_spectral_contrast = (\<lambda>y. Inr [[1, 3]])\<rparr>"

definition example_bytes :: "8 word list" where
  "example_bytes = [0x52, 0x49, 0x46, 0x46]"

definition example_signal :: signal where
  "example_signal = [0, 1 / 2, 0, - 1 / 2]"

definition silent_track :: pitch_track where
  "silent_track = [[(0, 0), (0, 0)], [(0, 0), (0, 0)]]"

definition voiced_track :: pitch_track where
  "voiced_track = [[(100, 1 / 2), (220, 2)], [(0, 0), (0, 0)], [(180, 3), (300, 1)]]"

definition silent_library :: librosa where
  "silent_library = constant_library (Inr example_signal) silent_track"

definition voiced_library :: librosa where
  "voiced_library = constant_library (Inr example_signal) voiced_track"

definition undecodable_library :: librosa where
  "undecodable_library =
     constant_library (Inl (OtherException ''Format not recognised'')) silent_track"

definition invalid_buffer_library :: librosa where
  "invalid_buffer_library =
     silent_library\<lparr>feature_mfcc :=
       (\<lambda>y. Inl (ParameterError ''Audio buffer is not finite everywhere''))\<rparr>"

section \<open>Auxiliary facts about the rules\<close>

lemmas rule_defs = rule1_spectral_flatness_def rule2_pitch_consistency_def rule3_zcr_variation_def
  rule4_energy_variation_def rule5_mfcc_variance_def rule6_spectral_bandwidth_def
  override_spectral_flatness_def rule7_spectral_contrast_def

lemma rule1_increments: "one_score_incremented s (rule1_spectral_flatness f s)"
  by (simp add: one_score_incremented_def rule1_spectral_flatness_def)

lemma rule3_increments: "one_score_incremented s (rule3_zcr_variation f s)"
  by (simp add: one_score_incremented_def rule3_zcr_variation_def)

lemma rule4_increments: "one_score_incremented s (rule4_energy_variation f s)"
  by (simp add: one_score_incremented_def rule4_energy_variation_def)

lemma rule5_increments: "one_score_incremented s (rule5_mfcc_variance f s)"
  by (simp add: one_score_incremented_def rule5_mfcc_variance_def Let_def)

lemma rule7_increments: "one_score_incremented s (rule7_spectral_contrast f s)"
  by (simp add: one_score_incremented_def rule7_spectral_contrast_def)

lemma rule2_grows: "scores_grow s (rule2_pitch_consistency f s)"
  by (simp add: scores_grow_def rule2_pitch_consistency_def Let_def)

lemma rule6_grows: "scores_grow s (rule6_spectral_bandwidth f s)"
  by (simp add: scores_grow_def rule6_spectral_bandwidth_def)

lemma override_grows: "scores_grow s (override_spectral_flatness f s)"
  by (simp add: scores_grow_def override_spectral_flatness_def)

lemma incremented_total:
  "one_score_incremented s t \<Longrightarrow> ai_score s + human_score s + 1 \<le> ai_score t + human_score t"
  by (auto simp: one_score_incremented_def)

lemma grows_total:
  "scores_grow s t \<Longrightarrow> ai_score s + human_score s \<le> ai_score t + human_score t"
  by (auto simp: scores_grow_def)

lemma incremented_grows: "one_score_incremented s t \<Longrightarrow> scores_grow s t"
  by (auto simp: one_score_incremented_def scores_grow_def)

lemma grows_trans: "scores_grow s t \<Longrightarrow> scores_grow t u \<Longrightarrow> scores_grow s u"
  by (auto simp: scores_grow_def)

lemma total_score_ge_5: "5 \<le> ai_score (apply_rules f) + human_score (apply_rules f)"
proof -
  define s1 where "s1 = rule1_spectral_flatness f initial_scoring"
  define s2 where "s2 = rule2_pitch_consistency f s1"
  define s3 where "s3 = rule3_zcr_variation f s2"
  define s4 where "s4 = rule4_energy_variation f s3"
  define s5 where "s5 = rule5_mfcc_variance f s4"
  define s6 where "s6 = rule6_spectral_bandwidth f s5"
  define s7 where "s7 = override_spectral_flatness f s6"
  define s8 where "s8 = rule7_spectral_contrast f s7"
  have e: "apply_rules f = s8"
    by (simp add: apply_rules_def s1_def s2_def s3_def s4_def s5_def s6_def s7_def s8_def)
  have "ai_score initial_scoring + human_score initial_scoring = 0"
    by (simp add: initial_scoring_def)
  moreover have "ai_score initial_scoring + human_score initial_scoring + 1 \<le> ai_score s1 + human_score s1"
    unfolding s1_def by (rule incremented_total [OF rule1_increments])
  moreover have "ai_score s1 + human_score s1 \<le> ai_score s2 + human_score s2"
    unfolding s2_def by (rule grows_total [OF rule2_grows])
  moreover have "ai_score s2 + human_score s2 + 1 \<le> ai_score s3 + human_score s3"
    unfolding s3_def by (rule incremented_total [OF rule3_increments])
  moreover have "ai_score s3 + human_score s3 + 1 \<le> ai_score s4 + human_score s4"
    unfolding s4_def by (rule incremented_total [OF rule4_increments])
  moreover have "ai_score s4 + human_score s4 + 1 \<le> ai_score s5 + human_score s5"
    unfolding s5_def by (rule incremented_total [OF rule5_increments])
  moreover have "ai_score s5 + human_score s5 \<le> ai_score s6 + human_score s6"
    unfolding s6_def by (rule grows_total [OF rule6_grows])
  moreover have "ai_score s6 + human_score s6 \<le> ai_score s7 + human_score s7"
    unfolding s7_def by (rule grows_total [OF override_grows])
  moreover have "ai_score s7 + human_score s7 + 1 \<le> ai_score s8 + human_score s8"
    unfolding s8_def by (rule incremented_total [OF rule7_increments])
  ultimately show ?thesis unfolding e by linarith
qed

lemma scores_nonneg: "0 \<le> ai_score (apply_rules f) \<and> 0 \<le> human_score (apply_rules f)"
proof -
  have "scores_grow initial_scoring (apply_rules f)"
    unfolding apply_rules_def
    by (intro grows_trans [OF _ incremented_grows [OF rule7_increments]]
        grows_trans [OF _ override_grows] grows_trans [OF _ rule6_grows]
        grows_trans [OF _ incremented_grows [OF rule5_increments]]
        grows_trans [OF _ incremented_grows [OF rule4_increments]]
        grows_trans [OF _ incremented_grows [OF rule3_increments]]
        grows_trans [OF _ rule2_grows] incremented_grows [OF rule1_increments])
  then show ?thesis by (simp add: scores_grow_def initial_scoring_def)
qed

lemma round_half_even_bounds:
  "of_int a \<le> x \<Longrightarrow> x \<le> of_int b \<Longrightarrow> a \<le> round_half_even x \<and> round_half_even x \<le> b"
proof -
  assume a: "of_int a \<le> x" and b: "x \<le> of_int b"
  have fa: "a \<le> \<lfloor>x\<rfloor>" using a by (simp add: le_floor_iff)
  have fb: "\<lfloor>x\<rfloor> \<le> b" using b by (simp add: floor_le_iff) 
  have strict: "x - of_int \<lfloor>x\<rfloor> \<noteq> 0 \<Longrightarrow> \<lfloor>x\<rfloor> + 1 \<le> b"
  proof -
    assume "x - of_int \<lfloor>x\<rfloor> \<noteq> 0"
    then have "of_int \<lfloor>x\<rfloor> < x" using of_int_floor_le [of x] by linarith
    then have "of_int \<lfloor>x\<rfloor> < (of_int b :: real)" using b by linarith
    then have "\<lfloor>x\<rfloor> < b" by simp
    then show ?thesis by simp
  qed
  show ?thesis
    using fa fb strict by (auto simp: round_half_even_def Let_def)
qed

lemma py_round_2_bounds:
  assumes "0.55 \<le> x" and "x \<le> 0.95"
  shows "0.55 \<le> py_round x 2 \<and> py_round x 2 \<le> 0.95"
proof -
  have "of_int 55 \<le> x * 10\<^sup>2" "x * 10\<^sup>2 \<le> of_int 95" using assms by simp_all
  from round_half_even_bounds [OF this]
  have "55 \<le> round_half_even (x * 10\<^sup>2)" "round_half_even (x * 10\<^sup>2) \<le> 95" by simp_all
  then have "(55::real) \<le> of_int (round_half_even (x * 10\<^sup>2))"
      "of_int (round_half_even (x * 10\<^sup>2)) \<le> (95::real)" by linarith+
  then show ?thesis by (simp add: py_round_def)
qed

lemma clamp_confidence_bounds: "0.55 \<le> clamp_confidence c \<and> clamp_confidence c \<le> 0.95"
  by (simp add: clamp_confidence_def)

lemma neutral_confidence: "py_round (clamp_confidence (raw_confidence 0 0)) 2 = 0.55"
  by (simp add: py_round_def clamp_confidence_def raw_confidence_def round_half_even_def)

lemma rule1_extends: "reasons_extended s (rule1_spectral_flatness f s)"
  by (simp add: reasons_extended_def rule1_spectral_flatness_def rule_reasons_def)

lemma rule2_extends: "reasons_extended s (rule2_pitch_consistency f s)"
  by (simp add: reasons_extended_def rule2_pitch_consistency_def rule_reasons_def Let_def)

lemma rule3_extends: "reasons_extended s (rule3_zcr_variation f s)"
  by (simp add: reasons_extended_def rule3_zcr_variation_def rule_reasons_def)

lemma rule4_extends: "reasons_extended s (rule4_energy_variation f s)"
  by (simp add: reasons_extended_def rule4_energy_variation_def rule_reasons_def)

lemma rule5_extends: "reasons_extended s (rule5_mfcc_variance f s)"
  by (simp add: reasons_extended_def rule5_mfcc_variance_def rule_reasons_def Let_def)

lemma rule6_extends: "reasons_extended s (rule6_spectral_bandwidth f s)"
  by (simp add: reasons_extended_def rule6_spectral_bandwidth_def rule_reasons_def)

lemma rule7_extends: "reasons_extended s (rule7_spectral_contrast f s)"
  by (simp add: reasons_extended_def rule7_spectral_contrast_def rule_reasons_def)

lemma extended_trans:
  "reasons_extended s t \<Longrightarrow> reasons_extended t u \<Longrightarrow> reasons_extended s u"
  by (auto simp: reasons_extended_def)

lemma before_override_extended:
  "reasons_extended (rule1_spectral_flatness f initial_scoring)
     (rule6_spectral_bandwidth f (rule5_mfcc_variance f (rule4_energy_variation f
       (rule3_zcr_variation f (rule2_pitch_consistency f
         (rule1_spectral_flatness f initial_scoring))))))"
  by (intro extended_trans [OF _ rule6_extends] extended_trans [OF _ rule5_extends]
      extended_trans [OF _ rule4_extends] extended_trans [OF _ rule3_extends] rule2_extends)

lemma rule1_initial_reasons:
  "\<exists>r. reasons (rule1_spectral_flatness f initial_scoring) = [r] \<and> r \<in> set rule_reasons"
  by (simp add: rule1_spectral_flatness_def initial_scoring_def rule_reasons_def)

lemma override_reasons:
  "reasons (override_spectral_flatness f s) = reasons s \<or>
   reasons (override_spectral_flatness f s) = ''Strong synthetic spectral signature'' # reasons s"
  by (simp add: override_spectral_flatness_def)

lemma reasons_from_table:
  "reasons (apply_rules f) \<noteq> [] \<and> set (reasons (apply_rules f)) \<subseteq> set rule_reasons"
proof -
  define s1 where "s1 = rule1_spectral_flatness f initial_scoring"
  define s6 where "s6 = rule6_spectral_bandwidth f (rule5_mfcc_variance f
     (rule4_energy_variation f (rule3_zcr_variation f (rule2_pitch_consistency f s1))))"
  define s7 where "s7 = override_spectral_flatness f s6"
  have e: "apply_rules f = rule7_spectral_contrast f s7"
    by (simp add: apply_rules_def s1_def s6_def s7_def)
  obtain r where r: "reasons s1 = [r]" "r \<in> set rule_reasons"
    using rule1_initial_reasons [of f] unfolding s1_def by blast
  obtain ys where ys: "reasons s6 = reasons s1 @ ys" "set ys \<subseteq> set rule_reasons"
    using before_override_extended [of f] unfolding s1_def s6_def reasons_extended_def by blast
  have s6: "reasons s6 \<noteq> [] \<and> set (reasons s6) \<subseteq> set rule_reasons"
    using r ys by simp
  have "''Strong synthetic spectral signature'' \<in> set rule_reasons"
    by (simp add: rule_reasons_def)
  then have s7: "reasons s7 \<noteq> [] \<and> set (reasons s7) \<subseteq> set rule_reasons"
    using s6 override_reasons [of f s6] unfolding s7_def by auto
  obtain zs where zs: "reasons (apply_rules f) = reasons s7 @ zs" "set zs \<subseteq> set rule_reasons"
    using rule7_extends [of s7 f] unfolding e reasons_extended_def by blast
  show ?thesis using s7 zs by simp
qed

lemma rule_reasons_nonempty: "r \<in> set rule_reasons \<Longrightarrow> r \<noteq> []"
  by (auto simp: rule_reasons_def)

lemma str_in_prefix: "prefix kw s \<Longrightarrow> str_in kw s"
  by (cases s) simp_all

lemma join_hd_prefix: "xs \<noteq> [] \<Longrightarrow> prefix (hd xs) (join sep xs)"
  by (induction sep xs rule: join.induct) simp_all

lemma select_explanation_from_table:
  assumes "rs \<noteq> []" and "set rs \<subseteq> set rule_reasons"
  shows "\<exists>e. select_explanation kws rs = Inr e \<and> e \<noteq> []
           \<and> list_ex (\<lambda>r. str_in r e) rule_reasons"
proof (cases "filter (any_keyword kws) rs = []")
  case True
  obtain r rs' where rs: "rs = r # rs'" using assms(1) by (cases rs) auto
  have "select_explanation kws rs = Inr r"
    using True by (simp add: select_explanation_def rs)
  moreover have "r \<in> set rule_reasons" using assms(2) rs by simp
  moreover have "str_in r r" by (rule str_in_prefix) simp
  ultimately show ?thesis
    using rule_reasons_nonempty [of r] by (auto simp: list_ex_iff)
next
  case False
  define sel where "sel = take 3 (filter (any_keyword kws) rs)"
  have ne: "sel \<noteq> []" using False by (simp add: sel_def)
  have "set sel \<subseteq> set rs"
    unfolding sel_def using set_take_subset [of 3 "filter (any_keyword kws) rs"] by auto
  then have hd_in: "hd sel \<in> set rule_reasons" using ne assms(2) hd_in_set [OF ne] by blast
  have e: "select_explanation kws rs = Inr (join ''; '' sel)"
    using False by (simp add: select_explanation_def sel_def)
  have p: "prefix (hd sel) (join ''; '' sel)" by (rule join_hd_prefix [OF ne])
  have "join ''; '' sel \<noteq> []"
    using p rule_reasons_nonempty [OF hd_in] by auto
  moreover have "str_in (hd sel) (join ''; '' sel)" by (rule str_in_prefix [OF p])
  ultimately show ?thesis using e hd_in by (auto simp: list_ex_iff)
qed

lemma np_sum_features_with:
  "np_sum (mfcc_var (features_with a b c d e v g h)) = Finite v"
proof -
  have "foldl float_add (Finite x) (replicate n (Finite 0)) = Finite x" for x n
    by (induction n) simp_all
  then show ?thesis by (simp add: np_sum_def features_with_def)
qed

lemma features_with_fields:
  "spectral_flatness_std (features_with a b c d e v g h) = Finite a"
  "pitch_std (features_with a b c d e v g h) = Finite b"
  "pitch_range (features_with a b c d e v g h) = Finite c"
  "zcr_std (features_with a b c d e v g h) = Finite d"
  "rms_std (features_with a b c d e v g h) = Finite e"
  "spectral_bandwidth_std (features_with a b c d e v g h) = Finite g"
  "spectral_contrast_std (features_with a b c d e v g h) = Finite h"
  by (simp_all add: features_with_def)

lemma any_keyword_simps:
  "any_keyword kws r = list_ex (\<lambda>kw. str_in kw (map lower_char r)) kws"
  by (simp add: any_keyword_def lower_def)

lemma classify_voice_returns:
  "\<exists>ex. classify_voice f =
           Inr \<lparr>classification =
                   (if ai_score (apply_rules f) > human_score (apply_rules f)
                    then ''AI_GENERATED'' else ''HUMAN''),
                confidenceScore =
                   py_round (clamp_confidence (raw_confidence (ai_score (apply_rules f))
                      (human_score (apply_rules f)))) 2,
                explanation = ex\<rparr>
        \<and> select_explanation
             (if ai_score (apply_rules f) > human_score (apply_rules f)
              then ai_keywords else human_keywords) (reasons (apply_rules f)) = Inr ex
        \<and> ex \<noteq> [] \<and> list_ex (\<lambda>r. str_in r ex) rule_reasons"
proof -
  obtain ex where
    "select_explanation
       (if ai_score (apply_rules f) > human_score (apply_rules f)
        then ai_keywords else human_keywords) (reasons (apply_rules f)) = Inr ex"
    "ex \<noteq> []" "list_ex (\<lambda>r. str_in r ex) rule_reasons"
    using select_explanation_from_table reasons_from_table by blast
  then show ?thesis
    by (cases "ai_score (apply_rules f) > human_score (apply_rules f)")
       (simp_all add: classify_voice_def Let_def)
qed

lemma tie_example_rules:
  "apply_rules tie_example =
     \<lparr>ai_score = 4, human_score = 4,
      reasons = [''Low spectral variance'', ''Uniform rhythm patterns'',
                 ''Dynamic spectral contrast'']\<rparr>"
  by (simp add: apply_rules_def rule_defs initial_scoring_def tie_example_def
      np_sum_features_with features_with_fields float_gt_def)

lemma tie_example_classified:
  "classify_voice tie_example =
     Inr \<lparr>classification = ''HUMAN'', confidenceScore = 0.55,
          explanation = ''Dynamic spectral contrast''\<rparr>"
  by (simp add: classify_voice_def tie_example_rules select_explanation_def human_keywords_def
      any_keyword_simps lower_char_def py_round_def clamp_confidence_def raw_confidence_def
      round_half_even_def)

lemma extended_prefix:
  "reasons_extended s t \<Longrightarrow> \<exists>ys. reasons t = reasons s @ ys"
  by (auto simp: reasons_extended_def)

lemma float_le_not_lt: "float_le (Finite c) x \<Longrightarrow> \<not> float_lt x (Finite c)"
  by (cases x) auto

lemma override_example_rules:
  "apply_rules override_example =
     \<lparr>ai_score = 10, human_score = 7,
      reasons = [''Strong synthetic spectral signature'',
                 ''Synthetic spectral structure detected'', ''Wide pitch range'',
                 ''Dynamic spectral contrast'']\<rparr>"
  by (simp add: apply_rules_def rule_defs initial_scoring_def override_example_def
      np_sum_features_with features_with_fields float_gt_def)

lemma relabelled_example_rules:
  "apply_rules relabelled_example =
     \<lparr>ai_score = 3, human_score = 6,
      reasons = [''Natural spectral variation'', ''Unnatural pitch consistency'',
                 ''Dynamic spectral contrast'']\<rparr>"
  by (simp add: apply_rules_def rule_defs initial_scoring_def relabelled_example_def
      np_sum_features_with features_with_fields float_gt_def)

lemma select_explanation_nonempty:
  assumes "rs \<noteq> []"
  shows "select_explanation kws rs =
           Inr (if filter (any_keyword kws) rs \<noteq> []
                then join ''; '' (take 3 (filter (any_keyword kws) rs)) else hd rs)"
proof -
  obtain r rs' where rs: "rs = r # rs'" using assms by (cases rs) auto
  have "(case rs of [] \<Rightarrow> Inl (IndexError ''list index out of range'') | r # x \<Rightarrow> Inr r)
          = Inr (hd rs)"
    by (simp add: rs)
  then show ?thesis
    unfolding select_explanation_def Let_def by simp
qed

lemma round_half_even_close: "\<bar>of_int (round_half_even x) - x\<bar> \<le> 1 / 2"
proof -
  have "of_int \<lfloor>x\<rfloor> \<le> x" "x < of_int \<lfloor>x\<rfloor> + 1" by linarith+
  then show ?thesis
    by (auto simp: round_half_even_def Let_def abs_le_iff)
qed

lemma py_round_2_close: "\<bar>py_round x 2 - x\<bar> \<le> 0.005"
proof -
  have "\<bar>of_int (round_half_even (x * 100)) - x * 100\<bar> \<le> 1 / 2"
    by (rule round_half_even_close)
  then have "\<bar>of_int (round_half_even (x * 100)) / 100 - x\<bar> \<le> 0.005"
    by (simp add: abs_le_iff field_simps)
  then show ?thesis by (simp add: py_round_def)
qed

lemma py_round_2_hundredth: "\<exists>k::int. py_round x 2 = of_int k / 100"
  by (auto simp: py_round_def)

lemma py_round_ties: "py_round 0.625 2 = 0.62 \<and> py_round 0.875 2 = 0.88"
  by (simp add: py_round_def round_half_even_def)

lemma clamp_confidence_cases:
  "clamp_confidence c = (if c < 0.55 then 0.55 else if 0.95 < c then 0.95 else c)"
  by (simp add: clamp_confidence_def)

lemma flat_example_rules:
  "apply_rules flat_example =
     \<lparr>ai_score = 20, human_score = 0,
      reasons = [''Strong synthetic spectral signature'',
                 ''Synthetic spectral structure detected'', ''Unnatural pitch consistency'',
                 ''Uniform rhythm patterns'', ''Consistent energy levels'',
                 ''Low spectral diversity'', ''Low dynamic range'']\<rparr>"
  by (simp add: apply_rules_def rule_defs initial_scoring_def flat_example_def
      np_sum_features_with features_with_fields float_gt_def)

lemma confidence_of_scores:
  "\<exists>r. classify_voice f = Inr r
       \<and> confidenceScore r =
           py_round (clamp_confidence (raw_confidence (ai_score (apply_rules f))
              (human_score (apply_rules f)))) 2"
proof -
  obtain ex where
    "classify_voice f =
       Inr \<lparr>classification =
               (if ai_score (apply_rules f) > human_score (apply_rules f)
                then ''AI_GENERATED'' else ''HUMAN''),
            confidenceScore =
               py_round (clamp_confidence (raw_confidence (ai_score (apply_rules f))
                  (human_score (apply_rules f)))) 2,
            explanation = ex\<rparr>"
    using classify_voice_returns [of f] by blast
  then show ?thesis by simp
qed

lemma example_confidences:
  "py_round (clamp_confidence (raw_confidence 20 0)) 2 = 0.95"
  "py_round (clamp_confidence (raw_confidence 4 4)) 2 = 0.55"
  "py_round (clamp_confidence (raw_confidence 3 6)) 2 = 0.67"
  by (simp_all add: py_round_def clamp_confidence_def raw_confidence_def round_half_even_def)

section \<open>Auxiliary facts about extraction and the response\<close>

lemma argmax_from_bound:
  "besti < i \<Longrightarrow> argmax_from best besti i xs < i + length xs"
  by (induction best besti i xs rule: argmax_from.induct) auto

text \<open>The index that \<open>frame_pitch\<close> reads is inside the frame.\<close>

lemma argmax_in_range: "argmax (map snd fr) = Inr i \<Longrightarrow> i < length fr"
  using argmax_from_bound [of 0 1 _ "map snd (tl fr)"] by (cases fr) auto

lemma frame_pitch_returns:
  "fr \<noteq> [] \<Longrightarrow> \<exists>p. frame_pitch fr = Inr p"
  by (cases fr) (simp_all add: frame_pitch_def)

lemma frame_pitches_return:
  "\<forall>fr\<in>set track. fr \<noteq> [] \<Longrightarrow> \<exists>ps. map frame_pitch track = map Inr ps"
proof (induction track)
  case Nil
  then show ?case by simp
next
  case (Cons fr track)
  then obtain ps where ps: "map frame_pitch track = map Inr ps" by auto
  obtain p where "frame_pitch fr = Inr p" using Cons.prems frame_pitch_returns by auto
  then have "map frame_pitch (fr # track) = map Inr (p # ps)" using ps by simp
  then show ?case by blast
qed

lemma collect_pitch_values_filter:
  "map frame_pitch track = map Inr ps \<Longrightarrow>
   collect_pitch_values track acc = Inr (acc @ filter (\<lambda>p. 0 < p) ps)"
proof (induction track arbitrary: acc ps)
  case Nil
  then show ?case by simp
next
  case (Cons fr track)
  then obtain p ps' where ps: "ps = p # ps'" "frame_pitch fr = Inr p"
      "map frame_pitch track = map Inr ps'"
    by (cases ps) auto
  show ?case using Cons.IH [OF ps(3)] ps(1,2) by simp
qed

lemma foldl_max_Max: "foldl max (p::real) ps = Max (set (p # ps))"
proof -
  have "(\<lambda>x s. max s x) = (max :: real \<Rightarrow> real \<Rightarrow> real)" by (intro ext) (rule max.commute)
  then show ?thesis using Max.set_eq_fold [of p ps] by (simp add: foldl_conv_fold)
qed

lemma foldl_min_Min: "foldl min (p::real) ps = Min (set (p # ps))"
proof -
  have "(\<lambda>x s. min s x) = (min :: real \<Rightarrow> real \<Rightarrow> real)" by (intro ext) (rule min.commute)
  then show ?thesis using Min.set_eq_fold [of p ps] by (simp add: foldl_conv_fold)
qed

lemma pitch_statistics_cases:
  "pitch_statistics pv =
     (if pv = [] then (Finite 0, Finite 0, Finite 0)
      else (Finite (sum_list pv / real (length pv)),
            Finite (sqrt (sum_list (map (\<lambda>x. (x - sum_list pv / real (length pv))\<^sup>2) pv)
                           / real (length pv))),
            Finite (Max (set pv) - Min (set pv))))"
proof (cases pv)
  case Nil
  then show ?thesis by (simp add: pitch_statistics_def)
next
  case (Cons p ps)
  have "foldl max p ps - foldl min p ps = Max (set pv) - Min (set pv)"
    unfolding foldl_max_Max foldl_min_Min Cons ..
  then show ?thesis
    unfolding Cons pitch_statistics_def by (simp add: np_mean_def np_std_def Let_def)
qed

lemma returnsE: "returns r \<Longrightarrow> \<exists>v. r = Inr v"
  by (cases r) (simp_all add: returns_def)

lemma map_Inr_eq: "map Inr ps = map Inr qs \<Longrightarrow> ps = qs"
  by simp

lemma silent_library_returns:
  "librosa_returns silent_library example_bytes example_signal silent_track"
  by (simp add: librosa_returns_def silent_library_def constant_library_def returns_def)

lemma voiced_library_returns:
  "librosa_returns voiced_library example_bytes example_signal voiced_track"
  by (simp add: librosa_returns_def voiced_library_def constant_library_def returns_def)

lemma silent_track_pitches: "map frame_pitch silent_track = map Inr [0, 0]"
  by (simp add: silent_track_def frame_pitch_def)

lemma voiced_track_pitches: "map frame_pitch voiced_track = map Inr [220, 0, 180]"
  by (simp add: voiced_track_def frame_pitch_def)

lemma process_voice_success:
  assumes "extract_audio_features lib audio_bytes = Inr ft"
  shows "\<exists>r. classify_voice ft = Inr r
           \<and> process_voice lib audio_bytes language = Success language r"
proof -
  obtain r where "classify_voice ft = Inr r" using classify_voice_returns [of ft] by blast
  then show ?thesis using assms by (simp add: process_voice_def try_bind_def)
qed

lemma process_voice_failure:
  assumes "extract_audio_features lib audio_bytes = Inl e"
  shows "process_voice lib audio_bytes language =
           (if is_parameter_error e then Error (''Invalid audio format: '' @ exn_str e)
            else Error (''Processing failed: '' @ exn_str e))"
  using assms by (cases e) (simp_all add: process_voice_def try_bind_def)

lemma silent_library_extracts:
  "\<exists>ft. extract_audio_features silent_library example_bytes = Inr ft"
  by (simp add: extract_audio_features_def try_bind_def silent_library_def
      constant_library_def silent_track_def frame_pitch_def)

lemma undecodable_library_raises:
  "extract_audio_features undecodable_library example_bytes =
     Inl (OtherException ''Format not recognised'')"
  by (simp add: extract_audio_features_def try_bind_def undecodable_library_def
      constant_library_def)

lemma invalid_buffer_library_raises:
  "extract_audio_features invalid_buffer_library example_bytes =
     Inl (ParameterError ''Audio buffer is not finite everywhere'')"
  by (simp add: extract_audio_features_def try_bind_def invalid_buffer_library_def
      silent_library_def constant_library_def)

section \<open>Properties of classify_voice and process_voice\<close>

subsection \<open>The confidence score\<close>

text \<open>
  Claim C1. For every feature vector \<open>classify_voice\<close> returns a result whose
  \<open>confidenceScore\<close> lies in the closed interval from 0.55 to 0.95. The confidence is
  the larger score divided by the total when the total is positive and 0.5 otherwise. It
  is then clamped: a value below 0.55 becomes 0.55, a value above 0.95 becomes 0.95 and
  a value between them is kept. The result is rounded to the nearest hundredth, a tie
  going to the even one. So the branch for a total of zero gives exactly 0.55. Three
  vectors show the three cases of the clamp on the code: \<open>flat_example\<close> scores 20
  against 0 (ratio 1, confidence 0.95), \<open>tie_example\<close> 4 against 4 (ratio 0.5,
  confidence 0.55) and \<open>relabelled_example\<close> 3 against 6 (ratio 2/3, confidence 0.67).
\<close>

theorem confidence_score_in_range:
  "(\<exists>r. classify_voice f = Inr r
       \<and> confidenceScore r =
           py_round (clamp_confidence (raw_confidence (ai_score (apply_rules f))
              (human_score (apply_rules f)))) 2
       \<and> 0.55 \<le> confidenceScore r \<and> confidenceScore r \<le> 0.95)
   \<and> raw_confidence ai hu =
        (if 0 < ai + hu then real_of_int (max ai hu) / real_of_int (ai + hu) else 0.5)
   \<and> clamp_confidence c = (if c < 0.55 then 0.55 else if 0.95 < c then 0.95 else c)
   \<and> 0.55 \<le> clamp_confidence c \<and> clamp_confidence c \<le> 0.95
   \<and> (\<exists>k::int. py_round x 2 = of_int k / 100)
   \<and> \<bar>py_round x 2 - x\<bar> \<le> 0.005
   \<and> py_round 0.625 2 = 0.62 \<and> py_round 0.875 2 = 0.88
   \<and> clamp_confidence 0.5 = 0.55
   \<and> py_round (clamp_confidence (raw_confidence 0 0)) 2 = 0.55
   \<and> (\<exists>r. classify_voice flat_example = Inr r \<and> confidenceScore r = 0.95)
   \<and> (\<exists>r. classify_voice tie_example = Inr r \<and> confidenceScore r = 0.55)
   \<and> (\<exists>r. classify_voice relabelled_example = Inr r \<and> confidenceScore r = 0.67)"
proof -
  have general: "\<exists>r. classify_voice f = Inr r
       \<and> confidenceScore r =
           py_round (clamp_confidence (raw_confidence (ai_score (apply_rules f))
              (human_score (apply_rules f)))) 2
       \<and> 0.55 \<le> confidenceScore r \<and> confidenceScore r \<le> 0.95"
    using confidence_of_scores [of f] py_round_2_bounds clamp_confidence_bounds by auto
  have raw: "raw_confidence ai hu =
        (if 0 < ai + hu then real_of_int (max ai hu) / real_of_int (ai + hu) else 0.5)"
    by (simp add: raw_confidence_def)
  have neutral: "clamp_confidence 0.5 = 0.55" by (simp add: clamp_confidence_def)
  have flat: "\<exists>r. classify_voice flat_example = Inr r \<and> confidenceScore r = 0.95"
    using confidence_of_scores [of flat_example]
    by (simp add: flat_example_rules example_confidences)
  have tie: "\<exists>r. classify_voice tie_example = Inr r \<and> confidenceScore r = 0.55"
    using confidence_of_scores [of tie_example]
    by (simp add: tie_example_rules example_confidences)
  have inside: "\<exists>r. classify_voice relabelled_example = Inr r \<and> confidenceScore r = 0.67"
    using confidence_of_scores [of relabelled_example]
    by (simp add: relabelled_example_rules example_confidences)
  show ?thesis
    using general raw clamp_confidence_cases [of c] clamp_confidence_bounds [of c]
      py_round_2_hundredth [of x] py_round_2_close [of x] py_round_ties neutral
      neutral_confidence flat tie inside
    by blast
qed

subsection \<open>The override on a literal input\<close>

text \<open>
  Claim C2. For a feature vector with \<open>spectral_flatness_std = 0.05\<close>,
  \<open>pitch_std = 500\<close>, \<open>pitch_range = 4000\<close>, \<open>zcr_std = 0.2\<close>, \<open>rms_std = 0.5\<close>,
  \<open>sum(mfcc_var) = 50\<close>, \<open>spectral_bandwidth_std = 1000\<close> and
  \<open>spectral_contrast_std = 50\<close> the rules give \<open>ai_score = 10\<close> (4 from rule 1 and 6
  from the override) and \<open>human_score = 7\<close> (2 from rule 2, 1 from rule 3, 1 from rule 4,
  2 from rule 5, 1 from rule 7), and the label is the arithmetic winner \<open>AI_GENERATED\<close>,
  with confidence 10 / 17 rounded to 0.59.
\<close>

theorem override_literal_input:
  assumes "spectral_flatness_std f = Finite 0.05" and "pitch_std f = Finite 500"
    and "pitch_range f = Finite 4000" and "zcr_std f = Finite 0.2"
    and "rms_std f = Finite 0.5" and "np_sum (mfcc_var f) = Finite 50"
    and "spectral_bandwidth_std f = Finite 1000" and "spectral_contrast_std f = Finite 50"
  shows "apply_rules f =
           \<lparr>ai_score = 10, human_score = 7,
            reasons = [''Strong synthetic spectral signature'',
                       ''Synthetic spectral structure detected'', ''Wide pitch range'',
                       ''Dynamic spectral contrast'']\<rparr>
       \<and> classify_voice f =
           Inr \<lparr>classification = ''AI_GENERATED'', confidenceScore = 0.59,
                explanation = ''Strong synthetic spectral signature''\<rparr>"
proof -
  have r: "apply_rules f =
           \<lparr>ai_score = 10, human_score = 7,
            reasons = [''Strong synthetic spectral signature'',
                       ''Synthetic spectral structure detected'', ''Wide pitch range'',
                       ''Dynamic spectral contrast'']\<rparr>"
    by (simp add: apply_rules_def rule_defs initial_scoring_def assms float_gt_def)
  have c: "py_round (clamp_confidence (raw_confidence 10 7)) 2 = 0.59"
    by (simp add: py_round_def clamp_confidence_def raw_confidence_def round_half_even_def)
  have x: "select_explanation ai_keywords
             [''Strong synthetic spectral signature'',
              ''Synthetic spectral structure detected'', ''Wide pitch range'',
              ''Dynamic spectral contrast''] = Inr ''Strong synthetic spectral signature''"
    by (simp add: select_explanation_def ai_keywords_def any_keyword_simps lower_char_def)
  show ?thesis
    by (simp add: r classify_voice_def c x)
qed

theorem override_literal_input_witness:
  "spectral_flatness_std override_example = Finite 0.05
   \<and> np_sum (mfcc_var override_example) = Finite 50
   \<and> ai_score (apply_rules override_example) = 10
   \<and> human_score (apply_rules override_example) = 7
   \<and> classify_voice override_example =
       Inr \<lparr>classification = ''AI_GENERATED'', confidenceScore = 0.59,
            explanation = ''Strong synthetic spectral signature''\<rparr>"
  using override_literal_input [of override_example]
  by (simp add: override_example_def features_with_fields np_sum_features_with)

subsection \<open>Spectral flatness is scored twice\<close>

text \<open>
  Claim C3. For every feature vector with \<open>spectral_flatness_std < 0.06\<close> the same
  condition is scored twice: rule 1 adds 4 to \<open>ai_score\<close> and appends the reason
  "Synthetic spectral structure detected", the override adds 6 more and inserts
  "Strong synthetic spectral signature" at the front of the list. So \<open>ai_score\<close> is at
  least 10 at the end, and the list of reasons starts with these two strings.
\<close>

theorem spectral_flatness_scored_twice:
  assumes low: "float_lt (spectral_flatness_std f) (Finite 0.06)"
  shows "rule1_spectral_flatness f s =
           s\<lparr>ai_score := ai_score s + 4,
             reasons := reasons s @ [''Synthetic spectral structure detected'']\<rparr>
       \<and> override_spectral_flatness f s =
           s\<lparr>ai_score := ai_score s + 6,
             reasons := ''Strong synthetic spectral signature'' # reasons s\<rparr>
       \<and> 10 \<le> ai_score (apply_rules f)
       \<and> (\<exists>rest. reasons (apply_rules f) =
             ''Strong synthetic spectral signature''
               # ''Synthetic spectral structure detected'' # rest)"
proof -
  define s1 where "s1 = rule1_spectral_flatness f initial_scoring"
  define s6 where "s6 = rule6_spectral_bandwidth f (rule5_mfcc_variance f
     (rule4_energy_variation f (rule3_zcr_variation f (rule2_pitch_consistency f s1))))"
  define s7 where "s7 = override_spectral_flatness f s6"
  have e: "apply_rules f = rule7_spectral_contrast f s7"
    by (simp add: apply_rules_def s1_def s6_def s7_def)
  have r1: "rule1_spectral_flatness f s =
           s\<lparr>ai_score := ai_score s + 4,
             reasons := reasons s @ [''Synthetic spectral structure detected'']\<rparr>" for s
    using low by (simp add: rule1_spectral_flatness_def)
  have ov: "override_spectral_flatness f s =
           s\<lparr>ai_score := ai_score s + 6,
             reasons := ''Strong synthetic spectral signature'' # reasons s\<rparr>" for s
    using low by (simp add: override_spectral_flatness_def)
  have a1: "ai_score s1 = 4" "reasons s1 = [''Synthetic spectral structure detected'']"
    unfolding s1_def r1 by (simp_all add: initial_scoring_def)
  have "scores_grow s1 s6"
    unfolding s6_def
    by (intro grows_trans [OF _ rule6_grows]
        grows_trans [OF _ incremented_grows [OF rule5_increments]]
        grows_trans [OF _ incremented_grows [OF rule4_increments]]
        grows_trans [OF _ incremented_grows [OF rule3_increments]] rule2_grows)
  then have a6: "4 \<le> ai_score s6" using a1 by (simp add: scores_grow_def)
  obtain ys where ys: "reasons s6 = reasons s1 @ ys"
    using extended_prefix [OF before_override_extended [of f]] unfolding s1_def s6_def by blast
  have a7: "10 \<le> ai_score s7"
    "reasons s7 = ''Strong synthetic spectral signature''
        # ''Synthetic spectral structure detected'' # ys"
    unfolding s7_def ov using a6 ys a1 by simp_all
  have "scores_grow s7 (apply_rules f)"
    unfolding e by (rule incremented_grows [OF rule7_increments])
  then have a8: "10 \<le> ai_score (apply_rules f)" using a7 by (simp add: scores_grow_def)
  obtain zs where "reasons (apply_rules f) = reasons s7 @ zs"
    using extended_prefix [OF rule7_extends [of s7 f]] unfolding e by blast
  then have "\<exists>rest. reasons (apply_rules f) =
             ''Strong synthetic spectral signature''
               # ''Synthetic spectral structure detected'' # rest"
    using a7 by simp
  then show ?thesis using r1 ov a8 by blast
qed

theorem spectral_flatness_scored_twice_witness:
  "float_lt (spectral_flatness_std flat_example) (Finite 0.06)
   \<and> rule1_spectral_flatness flat_example initial_scoring =
       \<lparr>ai_score = 4, human_score = 0,
        reasons = [''Synthetic spectral structure detected'']\<rparr>
   \<and> 10 \<le> ai_score (apply_rules flat_example)
   \<and> hd (reasons (apply_rules flat_example)) = ''Strong synthetic spectral signature''"
proof -
  have h: "float_lt (spectral_flatness_std flat_example) (Finite 0.06)"
    by (simp add: flat_example_def features_with_fields)
  show ?thesis
    using h spectral_flatness_scored_twice [OF h, of initial_scoring]
    by (auto simp: initial_scoring_def)
qed

subsection \<open>The label\<close>

text \<open>
  Claim C4. For every feature vector the label is \<open>AI_GENERATED\<close> exactly when
  \<open>ai_score\<close> is greater than \<open>human_score\<close> after all rules, and \<open>HUMAN\<close> otherwise.
  A tie gives \<open>HUMAN\<close>: the vector \<open>tie_example\<close> scores 4 against 4.
\<close>

theorem label_follows_scores:
  "(\<exists>r. classify_voice f = Inr r
       \<and> (classification r = ''AI_GENERATED'')
           = (human_score (apply_rules f) < ai_score (apply_rules f))
       \<and> (classification r = ''HUMAN'')
           = (ai_score (apply_rules f) \<le> human_score (apply_rules f)))
   \<and> ai_score (apply_rules tie_example) = human_score (apply_rules tie_example)
   \<and> (\<exists>r. classify_voice tie_example = Inr r \<and> classification r = ''HUMAN'')"
proof -
  obtain ex where
    "classify_voice f =
       Inr \<lparr>classification =
               (if ai_score (apply_rules f) > human_score (apply_rules f)
                then ''AI_GENERATED'' else ''HUMAN''),
            confidenceScore =
               py_round (clamp_confidence (raw_confidence (ai_score (apply_rules f))
                  (human_score (apply_rules f)))) 2,
            explanation = ex\<rparr>"
    using classify_voice_returns [of f] by blast
  then have "\<exists>r. classify_voice f = Inr r
       \<and> (classification r = ''AI_GENERATED'')
           = (human_score (apply_rules f) < ai_score (apply_rules f))
       \<and> (classification r = ''HUMAN'')
           = (ai_score (apply_rules f) \<le> human_score (apply_rules f))"
    by (cases "ai_score (apply_rules f) > human_score (apply_rules f)") simp_all
  then show ?thesis
    by (simp add: tie_example_rules tie_example_classified)
qed

subsection \<open>Pitch statistics\<close>

text \<open>
  Claim C5. Let the librosa calls return for a decoded signal and let every frame of the
  pitch track have at least one bin. Then \<open>extract_audio_features\<close> returns a feature
  vector, and with the pitches \<open>ps\<close> that the frames produce: when none of them is
  strictly positive, \<open>pitch_mean\<close>, \<open>pitch_std\<close> and \<open>pitch_range\<close> are all 0.0; otherwise
  they are the mean, the standard deviation and the maximum minus the minimum of the
  positive ones.
\<close>

theorem pitch_defaults_or_statistics:
  assumes lib: "librosa_returns lib audio_bytes y track"
    and bins: "\<forall>fr\<in>set track. fr \<noteq> []"
  shows "\<exists>ft ps. extract_audio_features lib audio_bytes = Inr ft
           \<and> map frame_pitch track = map Inr ps
           \<and> (let pv = filter (\<lambda>p. 0 < p) ps
              in if pv = [] then
                   pitch_mean ft = Finite 0 \<and> pitch_std ft = Finite 0
                   \<and> pitch_range ft = Finite 0
                 else
                   pitch_mean ft = Finite (sum_list pv / real (length pv))
                   \<and> pitch_std ft =
                       Finite (sqrt (sum_list
                          (map (\<lambda>x. (x - sum_list pv / real (length pv))\<^sup>2) pv)
                            / real (length pv)))
                   \<and> pitch_range ft = Finite (Max (set pv) - Min (set pv)))"
proof -
  obtain ps where ps: "map frame_pitch track = map Inr ps"
    using frame_pitches_return [OF bins] by blast
  define pv where "pv = filter (\<lambda>p. 0 < p) ps"
  have c: "collect_pitch_values track [] = Inr pv"
    using collect_pitch_values_filter [OF ps, of "[]"] by (simp add: pv_def)
  have l: "load lib audio_bytes = Inr y" "piptrack lib y = Inr track"
    using lib by (simp_all add: librosa_returns_def)
  obtain m1 where m1: "feature_mfcc lib y = Inr m1"
    using lib returnsE unfolding librosa_returns_def by blast
  obtain m2 where m2: "feature_zero_crossing_rate lib y = Inr m2"
    using lib returnsE unfolding librosa_returns_def by blast
  obtain m3 where m3: "feature_spectral_centroid lib y = Inr m3"
    using lib returnsE unfolding librosa_returns_def by blast
  obtain m4 where m4: "feature_spectral_rolloff lib y = Inr m4"
    using lib returnsE unfolding librosa_returns_def by blast
  obtain m5 where m5: "feature_spectral_flatness lib y = Inr m5"
    using lib returnsE unfolding librosa_returns_def by blast
  obtain m6 where m6: "feature_chroma_stft lib y = Inr m6"
    using lib returnsE unfolding librosa_returns_def by blast
  obtain m7 where m7: "feature_rms lib y = Inr m7"
    using lib returnsE unfolding librosa_returns_def by blast
  obtain m8 where m8: "feature_spectral_bandwidth lib y = Inr m8"
    using lib returnsE unfolding librosa_returns_def by blast
  obtain m9 where m9: "feature_spectral_contrast lib y = Inr m9"
    using lib returnsE unfolding librosa_returns_def by blast
  obtain ft where ft: "extract_audio_features lib audio_bytes = Inr ft"
      "pitch_mean ft = fst (pitch_statistics pv)"
      "pitch_std ft = fst (snd (pitch_statistics pv))"
      "pitch_range ft = snd (snd (pitch_statistics pv))"
    by (simp add: extract_audio_features_def try_bind_def l m1 m2 m3 m4 m5 m6 m7 m8 m9 c)
  have "if pv = [] then
          pitch_mean ft = Finite 0 \<and> pitch_std ft = Finite 0 \<and> pitch_range ft = Finite 0
        else
          pitch_mean ft = Finite (sum_list pv / real (length pv))
          \<and> pitch_std ft =
              Finite (sqrt (sum_list (map (\<lambda>x. (x - sum_list pv / real (length pv))\<^sup>2) pv)
                   / real (length pv)))
          \<and> pitch_range ft = Finite (Max (set pv) - Min (set pv))"
    unfolding ft(2,3,4) pitch_statistics_cases [of pv] by simp
  then show ?thesis
    unfolding Let_def pv_def using ft(1) ps by blast
qed

theorem pitch_defaults_or_statistics_witness:
  "librosa_returns silent_library example_bytes example_signal silent_track
   \<and> (\<exists>ft. extract_audio_features silent_library example_bytes = Inr ft
         \<and> pitch_mean ft = Finite 0 \<and> pitch_std ft = Finite 0 \<and> pitch_range ft = Finite 0)
   \<and> librosa_returns voiced_library example_bytes example_signal voiced_track
   \<and> (\<exists>ft. extract_audio_features voiced_library example_bytes = Inr ft
         \<and> pitch_mean ft = Finite 200 \<and> pitch_std ft = Finite 20
         \<and> pitch_range ft = Finite 40)"
proof -
  have s: "\<forall>fr\<in>set silent_track. fr \<noteq> []" by (simp add: silent_track_def)
  have v: "\<forall>fr\<in>set voiced_track. fr \<noteq> []" by (simp add: voiced_track_def)
  obtain ft ps where a: "extract_audio_features silent_library example_bytes = Inr ft"
      "map frame_pitch silent_track = map Inr ps"
      "(let pv = filter (\<lambda>p. 0 < p) ps
        in if pv = [] then
             pitch_mean ft = Finite 0 \<and> pitch_std ft = Finite 0 \<and> pitch_range ft = Finite 0
           else
             pitch_mean ft = Finite (sum_list pv / real (length pv))
             \<and> pitch_std ft =
                 Finite (sqrt (sum_list
                    (map (\<lambda>x. (x - sum_list pv / real (length pv))\<^sup>2) pv)
                      / real (length pv)))
             \<and> pitch_range ft = Finite (Max (set pv) - Min (set pv)))"
    using pitch_defaults_or_statistics [OF silent_library_returns s] by blast
  have "ps = [0, 0]" using a(2) silent_track_pitches map_Inr_eq by metis
  then have a': "pitch_mean ft = Finite 0 \<and> pitch_std ft = Finite 0 \<and> pitch_range ft = Finite 0"
    using a(3) by simp
  obtain gt qs where b: "extract_audio_features voiced_library example_bytes = Inr gt"
      "map frame_pitch voiced_track = map Inr qs"
      "(let pv = filter (\<lambda>p. 0 < p) qs
        in if pv = [] then
             pitch_mean gt = Finite 0 \<and> pitch_std gt = Finite 0 \<and> pitch_range gt = Finite 0
           else
             pitch_mean gt = Finite (sum_list pv / real (length pv))
             \<and> pitch_std gt =
                 Finite (sqrt (sum_list
                    (map (\<lambda>x. (x - sum_list pv / real (length pv))\<^sup>2) pv)
                      / real (length pv)))
             \<and> pitch_range gt = Finite (Max (set pv) - Min (set pv)))"
    using pitch_defaults_or_statistics [OF voiced_library_returns v] by blast
  have q: "qs = [220, 0, 180]" using b(2) voiced_track_pitches map_Inr_eq by metis
  have r: "sqrt 400 = 20" using real_sqrt_abs [of 20] by simp
  have b': "pitch_mean gt = Finite 200 \<and> pitch_std gt = Finite 20 \<and> pitch_range gt = Finite 40"
    using b(3) unfolding q by (simp add: r)
  show ?thesis
    using silent_library_returns voiced_library_returns a(1) a' b(1) b' by blast
qed

subsection \<open>Error responses\<close>

text \<open>
  Claim C6. A failure to parse or resample the audio bytes is to be reported as
  "Invalid audio format: ..." and every other exception as "Processing failed: ...".
  The one handler of \<open>process_voice\<close> that writes the first message catches librosa's
  \<open>ParameterError\<close>; a failure of the decoder with an exception of another class falls
  to the general handler. Evaluated at \<open>undecodable_library\<close>, whose \<open>load\<close> fails with an
  exception that is not a \<open>ParameterError\<close>, the code answers
  "Processing failed: Format not recognised" where the claim has
  "Invalid audio format: ...". In the other direction, at \<open>invalid_buffer_library\<close>
  the bytes are decoded, the MFCC computation raises \<open>ParameterError\<close> and the code
  answers "Invalid audio format: ..." where the claim has "Processing failed: ...".
\<close>

theorem decode_failure_not_reported_as_invalid_format:
  "load undecodable_library example_bytes = Inl (OtherException ''Format not recognised'')
   \<and> process_voice undecodable_library example_bytes ''English'' =
       Error ''Processing failed: Format not recognised''
   \<and> load invalid_buffer_library example_bytes = Inr example_signal
   \<and> feature_mfcc invalid_buffer_library example_signal =
       Inl (ParameterError ''Audio buffer is not finite everywhere'')
   \<and> process_voice invalid_buffer_library example_bytes ''English'' =
       Error ''Invalid audio format: Audio buffer is not finite everywhere''"
  by (simp add: process_voice_failure [OF undecodable_library_raises]
      process_voice_failure [OF invalid_buffer_library_raises])
     (simp add: undecodable_library_def invalid_buffer_library_def silent_library_def
      constant_library_def)

subsection \<open>The explanation\<close>

text \<open>
  Claim C7. For every feature vector the explanation returned by \<open>classify_voice\<close> is
  not empty and contains a reason string of the rule table. When some collected reason
  matches a keyword of the winning label, the explanation is the first three matches (or
  fewer) joined by "; "; when none matches, it is the first reason of the list as the
  override left it.
\<close>

theorem explanation_from_rule_table:
  "\<exists>r. classify_voice f = Inr r \<and> explanation r \<noteq> []
       \<and> list_ex (\<lambda>x. str_in x (explanation r)) rule_reasons
       \<and> (let s = apply_rules f;
               kws = (if human_score s < ai_score s then ai_keywords else human_keywords);
               sel = filter (any_keyword kws) (reasons s)
           in if sel \<noteq> [] then explanation r = join ''; '' (take 3 sel)
              else reasons s \<noteq> [] \<and> explanation r = hd (reasons s))"
proof -
  define s where "s = apply_rules f"
  define kws where "kws = (if human_score s < ai_score s then ai_keywords else human_keywords)"
  define sel where "sel = filter (any_keyword kws) (reasons s)"
  obtain ex where ex:
    "classify_voice f =
       Inr \<lparr>classification = (if ai_score s > human_score s then ''AI_GENERATED'' else ''HUMAN''),
            confidenceScore =
               py_round (clamp_confidence (raw_confidence (ai_score s) (human_score s))) 2,
            explanation = ex\<rparr>"
    "select_explanation kws (reasons s) = Inr ex"
    "ex \<noteq> []" "list_ex (\<lambda>r. str_in r ex) rule_reasons"
    using classify_voice_returns [of f] unfolding s_def kws_def by blast
  have ne: "reasons s \<noteq> []" using reasons_from_table [of f] by (simp add: s_def)
  have "select_explanation kws (reasons s) =
          Inr (if sel \<noteq> [] then join ''; '' (take 3 sel) else hd (reasons s))"
    using ne unfolding sel_def by (rule select_explanation_nonempty)
  then have "if sel \<noteq> [] then ex = join ''; '' (take 3 sel)
             else reasons s \<noteq> [] \<and> ex = hd (reasons s)"
    using ex(2) ne by (simp split: if_splits)
  then have "\<exists>r. classify_voice f = Inr r \<and> explanation r \<noteq> []
       \<and> list_ex (\<lambda>x. str_in x (explanation r)) rule_reasons
       \<and> (if sel \<noteq> [] then explanation r = join ''; '' (take 3 sel)
          else reasons s \<noteq> [] \<and> explanation r = hd (reasons s))"
    using ex(3,4) unfolding ex(1) by simp
  then show ?thesis
    unfolding Let_def sel_def kws_def s_def .
qed

theorem explanation_from_rule_table_witness:
  "(\<exists>r. classify_voice override_example = Inr r
       \<and> filter (any_keyword ai_keywords) (reasons (apply_rules override_example)) = []
       \<and> explanation r = ''Strong synthetic spectral signature'')
   \<and> (\<exists>r. classify_voice relabelled_example = Inr r
       \<and> filter (any_keyword human_keywords) (reasons (apply_rules relabelled_example)) =
           [''Natural spectral variation'', ''Unnatural pitch consistency'',
            ''Dynamic spectral contrast'']
       \<and> explanation r =
           ''Natural spectral variation; Unnatural pitch consistency; Dynamic spectral contrast'')"
proof -
  have a: "filter (any_keyword ai_keywords) (reasons (apply_rules override_example)) = []"
    by (simp add: override_example_rules ai_keywords_def any_keyword_simps lower_char_def)
  have b: "filter (any_keyword human_keywords) (reasons (apply_rules relabelled_example)) =
           [''Natural spectral variation'', ''Unnatural pitch consistency'',
            ''Dynamic spectral contrast'']"
    by (simp add: relabelled_example_rules human_keywords_def any_keyword_simps lower_char_def)
  have "\<exists>r. classify_voice override_example = Inr r
       \<and> filter (any_keyword ai_keywords) (reasons (apply_rules override_example)) = []
       \<and> explanation r = ''Strong synthetic spectral signature''"
    using explanation_from_rule_table [of override_example] a
    by (auto simp: Let_def override_example_rules)
  moreover have "\<exists>r. classify_voice relabelled_example = Inr r
       \<and> filter (any_keyword human_keywords) (reasons (apply_rules relabelled_example)) =
           [''Natural spectral variation'', ''Unnatural pitch consistency'',
            ''Dynamic spectral contrast'']
       \<and> explanation r =
           ''Natural spectral variation; Unnatural pitch consistency; Dynamic spectral contrast''"
    using explanation_from_rule_table [of relabelled_example] b
    by (auto simp: Let_def relabelled_example_rules)
  ultimately show ?thesis by blast
qed

subsection \<open>The language label\<close>

text \<open>
  Claim C8. The language is not used by extraction or classification: two calls of
  \<open>process_voice\<close> with the same bytes and any two languages agree on status,
  classification, confidence, explanation and error message, and on success the
  \<open>language\<close> entry of a response is the language that was passed in.
\<close>

theorem language_is_passed_through:
  "response_result (process_voice lib audio_bytes language)
     = response_result (process_voice lib audio_bytes other_language)
   \<and> response_message (process_voice lib audio_bytes language)
     = response_message (process_voice lib audio_bytes other_language)
   \<and> status (process_voice lib audio_bytes language)
     = status (process_voice lib audio_bytes other_language)
   \<and> response_language (process_voice lib audio_bytes language)
     = (if status (process_voice lib audio_bytes language) = ''success''
        then Some language else None)"
proof (cases "extract_audio_features lib audio_bytes")
  case (Inl e)
  show ?thesis
    by (simp add: process_voice_failure [OF Inl])
next
  case (Inr ft)
  obtain r where "classify_voice ft = Inr r" using classify_voice_returns [of ft] by blast
  then have "process_voice lib audio_bytes l = Success l r" for l
    using Inr by (simp add: process_voice_def try_bind_def)
  then show ?thesis by simp
qed

theorem language_is_passed_through_witness:
  "response_result (process_voice silent_library example_bytes ''Tamil'')
     = response_result (process_voice silent_library example_bytes ''English'')
   \<and> status (process_voice silent_library example_bytes ''Tamil'') = ''success''
   \<and> response_language (process_voice silent_library example_bytes ''Tamil'') = Some ''Tamil''
   \<and> response_language (process_voice silent_library example_bytes ''English'')
       = Some ''English''"
proof -
  obtain ft where ft: "extract_audio_features silent_library example_bytes = Inr ft"
    using silent_library_extracts by blast
  have s: "status (process_voice silent_library example_bytes l) = ''success''" for l
    using process_voice_success [OF ft, of l] by auto
  show ?thesis
    using language_is_passed_through [where lib = silent_library
        and audio_bytes = example_bytes and language = "''Tamil''"
        and other_language = "''English''"]
      language_is_passed_through [where lib = silent_library
        and audio_bytes = example_bytes and language = "''English''"
        and other_language = "''Tamil''"]
    by (simp add: s)
qed

subsection \<open>The total score\<close>

text \<open>
  Claim C9. For every feature vector the total of the two scores is at least 1 when the
  confidence is computed: rule 1, and likewise rules 3, 4, 5 and the spectral-contrast
  rule, increment exactly one of the two scores in each of their branches. So the
  confidence is the quotient, the branch for a total of zero is not taken, and the
  divisor is not zero.
\<close>

theorem total_score_positive:
  "1 \<le> ai_score (apply_rules f) + human_score (apply_rules f)
   \<and> raw_confidence (ai_score (apply_rules f)) (human_score (apply_rules f)) =
       real_of_int (max (ai_score (apply_rules f)) (human_score (apply_rules f)))
         / real_of_int (ai_score (apply_rules f) + human_score (apply_rules f))
   \<and> real_of_int (ai_score (apply_rules f) + human_score (apply_rules f)) \<noteq> 0
   \<and> one_score_incremented s (rule1_spectral_flatness f s)
   \<and> one_score_incremented s (rule3_zcr_variation f s)
   \<and> one_score_incremented s (rule4_energy_variation f s)
   \<and> one_score_incremented s (rule5_mfcc_variance f s)
   \<and> one_score_incremented s (rule7_spectral_contrast f s)"
proof -
  have t: "5 \<le> ai_score (apply_rules f) + human_score (apply_rules f)"
    by (rule total_score_ge_5)
  then have "raw_confidence (ai_score (apply_rules f)) (human_score (apply_rules f)) =
       real_of_int (max (ai_score (apply_rules f)) (human_score (apply_rules f)))
         / real_of_int (ai_score (apply_rules f) + human_score (apply_rules f))"
    by (simp add: raw_confidence_def)
  moreover have "real_of_int (ai_score (apply_rules f) + human_score (apply_rules f)) \<noteq> 0"
    using t by linarith
  moreover have "1 \<le> ai_score (apply_rules f) + human_score (apply_rules f)"
    using t by linarith
  ultimately show ?thesis
    using rule1_increments rule3_increments rule4_increments rule5_increments
      rule7_increments by blast
qed

subsection \<open>The keyword filter of the HUMAN label\<close>

text \<open>
  Claim C10. The keyword "natural" of the \<open>HUMAN\<close> filter is a substring of
  "unnatural". For every feature vector with \<open>spectral_flatness_std \<ge> 0.15\<close>,
  \<open>pitch_std < 50\<close>, \<open>zcr_std \<ge> 0.03\<close>, \<open>rms_std \<ge> 0.02\<close>, \<open>sum(mfcc_var) \<ge> 5\<close> and
  \<open>spectral_contrast_std \<ge> 5\<close> the label is \<open>HUMAN\<close> and the explanation includes the
  reason "Unnatural pitch consistency", which rule 2 adds together with 3 points for
  \<open>ai_score\<close>. The vector \<open>relabelled_example\<close> is one of them.
\<close>

theorem human_label_with_unnatural_reason:
  assumes "float_le (Finite 0.15) (spectral_flatness_std f)"
    and "float_lt (pitch_std f) (Finite 50)"
    and "float_le (Finite 0.03) (zcr_std f)"
    and "float_le (Finite 0.02) (rms_std f)"
    and "float_le (Finite 5) (np_sum (mfcc_var f))"
    and "float_le (Finite 5) (spectral_contrast_std f)"
  shows "\<exists>r. classify_voice f = Inr r \<and> classification r = ''HUMAN''
           \<and> explanation r =
               ''Natural spectral variation; Unnatural pitch consistency; Dynamic spectral contrast''
           \<and> str_in ''Unnatural pitch consistency'' (explanation r)
           \<and> str_in ''natural'' (lower ''Unnatural pitch consistency'')"
proof -
  have n: "\<not> float_lt (spectral_flatness_std f) (Finite 0.15)"
      "\<not> float_lt (zcr_std f) (Finite 0.03)" "\<not> float_lt (rms_std f) (Finite 0.02)"
      "\<not> float_lt (np_sum (mfcc_var f)) (Finite 5)"
      "\<not> float_lt (spectral_contrast_std f) (Finite 5)"
    using assms by (simp_all add: float_le_not_lt)
  have "\<not> float_lt (spectral_flatness_std f) (Finite 0.06)"
    using n(1) by (cases "spectral_flatness_std f") auto
  note n = n this
  have r: "reasons (apply_rules f) =
             [''Natural spectral variation'', ''Unnatural pitch consistency'',
              ''Dynamic spectral contrast'']"
      "human_score (apply_rules f) = 6"
      "ai_score (apply_rules f) = 3 \<or> ai_score (apply_rules f) = 4"
    using n assms(2) by (simp_all add: apply_rules_def rule_defs initial_scoring_def)
  have x: "select_explanation human_keywords
             [''Natural spectral variation'', ''Unnatural pitch consistency'',
              ''Dynamic spectral contrast''] =
           Inr ''Natural spectral variation; Unnatural pitch consistency; Dynamic spectral contrast''"
    by (simp add: select_explanation_def human_keywords_def any_keyword_simps lower_char_def)
  have le: "\<not> human_score (apply_rules f) < ai_score (apply_rules f)"
    using r(2,3) by auto
  have y: "str_in ''Unnatural pitch consistency''
     ''Natural spectral variation; Unnatural pitch consistency; Dynamic spectral contrast''"
    by simp
  have z: "str_in ''natural'' (lower ''Unnatural pitch consistency'')"
    by (simp add: lower_def lower_char_def)
  show ?thesis
    using le y z by (simp add: classify_voice_def Let_def r(1) x)
qed

theorem human_label_with_unnatural_reason_witness:
  "float_le (Finite 0.15) (spectral_flatness_std relabelled_example)
   \<and> float_lt (pitch_std relabelled_example) (Finite 50)
   \<and> (\<exists>r. classify_voice relabelled_example = Inr r \<and> classification r = ''HUMAN''
         \<and> explanation r =
             ''Natural spectral variation; Unnatural pitch consistency; Dynamic spectral contrast'')"
proof -
  have h: "float_le (Finite 0.15) (spectral_flatness_std relabelled_example)"
    "float_lt (pitch_std relabelled_example) (Finite 50)"
    "float_le (Finite 0.03) (zcr_std relabelled_example)"
    "float_le (Finite 0.02) (rms_std relabelled_example)"
    "float_le (Finite 5) (np_sum (mfcc_var relabelled_example))"
    "float_le (Finite 5) (spectral_contrast_std relabelled_example)"
    by (simp_all add: relabelled_example_def features_with_fields np_sum_features_with)
  show ?thesis
    using h(1,2) human_label_with_unnatural_reason [OF h] by blast
qed

end
